theory Spec2Isabelle
  imports Complex_Main "HOL-Library.Word"
begin

section \<open>CDP records (persistence/cdpdb.h, struct CUserCDP)\<close>

subsection \<open>The C++ type double\<close>

text \<open>
  \<^verbatim>\<open>collateralRatioBase\<close> is a C++ \<^verbatim>\<open>double\<close>. Its values are the finite
  binary64 numbers (a subset of the rationals; the two signed zeros compare equal and are
  one value here), the two infinities and NaN. The comparison operators \<^verbatim>\<open>==\<close> and
  \<^verbatim>\<open><\<close> follow IEEE 754: every comparison with NaN is false.
\<close>

datatype double = Finite rat | PosInf | NegInf | NaN

fun double_eq :: "double \<Rightarrow> double \<Rightarrow> bool" where
  "double_eq (Finite a) (Finite b) = (a = b)"
| "double_eq PosInf PosInf = True"
| "double_eq NegInf NegInf = True"
| "double_eq _ _ = False"

fun double_less :: "double \<Rightarrow> double \<Rightarrow> bool" where
  "double_less (Finite a) (Finite b) = (a < b)"
| "double_less (Finite a) PosInf = True"
| "double_less NegInf (Finite b) = True"
| "double_less NegInf PosInf = True"
| "double_less _ _ = False"

subsection \<open>struct CUserCDP\<close>

text \<open>
  \<^verbatim>\<open>CRegID\<close> (accounts/id.h) is not part of the sources: it is the type parameter
  \<open>'regid\<close>, linearly ordered by its \<^verbatim>\<open>operator<\<close>, with \<^verbatim>\<open>operator==\<close> the
  equality. \<^verbatim>\<open>uint256\<close> is a 256-bit unsigned number, \<^verbatim>\<open>int32_t\<close> a 32-bit word
  (read with \<open>sint\<close>), \<^verbatim>\<open>uint64_t\<close> a 64-bit word.
\<close>

type_synonym uint256 = "256 word"
type_synonym int32_t = "32 word"
type_synonym uint64_t = "64 word"
type_synonym uint8_t = "8 word"

record 'regid CUserCDP =
  collateralRatioBase :: double
  ownerRegId :: 'regid
  cdpTxId :: uint256
  blockHeight :: int32_t
  totalStakedBcoins :: uint64_t
  totalOwedScoins :: uint64_t

text \<open>
  The constructors initialise every member but \<^verbatim>\<open>collateralRatioBase\<close>: the member
  keeps whatever the object's memory held. That content is the argument \<open>uninit\<close>.
  \<^verbatim>\<open>CUserCDP()\<close> default-constructs \<^verbatim>\<open>ownerRegId\<close>; the value of \<^verbatim>\<open>CRegID()\<close>
  is the argument \<open>regId0\<close>. \<^verbatim>\<open>uint256()\<close> is zero.
\<close>

definition CUserCDP_default :: "double \<Rightarrow> 'regid \<Rightarrow> 'regid CUserCDP" where
  "CUserCDP_default uninit regId0 =
     \<lparr> collateralRatioBase = uninit, ownerRegId = regId0, cdpTxId = 0,
       blockHeight = 0, totalStakedBcoins = 0, totalOwedScoins = 0 \<rparr>"

definition CUserCDP_new :: "double \<Rightarrow> 'regid \<Rightarrow> uint256 \<Rightarrow> 'regid CUserCDP" where
  "CUserCDP_new uninit regId cdpTxIdIn =
     \<lparr> collateralRatioBase = uninit, ownerRegId = regId, cdpTxId = cdpTxIdIn,
       blockHeight = 0, totalStakedBcoins = 0, totalOwedScoins = 0 \<rparr>"

text \<open>\<^verbatim>\<open>bool operator<(const CUserCDP &cdp) const\<close>\<close>

definition CUserCDP_less :: "('regid::linorder) CUserCDP \<Rightarrow> 'regid CUserCDP \<Rightarrow> bool" where
  "CUserCDP_less this cdp =
     (if double_eq (collateralRatioBase this) (collateralRatioBase cdp) then
        (if ownerRegId this = ownerRegId cdp then cdpTxId this < cdpTxId cdp
         else ownerRegId this < ownerRegId cdp)
      else double_less (collateralRatioBase this) (collateralRatioBase cdp))"

text \<open>\<^verbatim>\<open>IsEmpty\<close> and \<^verbatim>\<open>SetEmpty\<close>; an empty \<^verbatim>\<open>uint256\<close> is zero.\<close>

definition IsEmpty :: "'regid CUserCDP \<Rightarrow> bool" where
  "IsEmpty this = (cdpTxId this = 0)"

definition SetEmpty :: "'regid CUserCDP \<Rightarrow> 'regid CUserCDP" where
  "SetEmpty this =
     this\<lparr> cdpTxId := 0, blockHeight := 0, totalStakedBcoins := 0, totalOwedScoins := 0 \<rparr>"


subsection \<open>Serialization (IMPLEMENT_SERIALIZE)\<close>

text \<open>
  \<^verbatim>\<open>collateralRatioBase = double(totalStakedBcoins) / totalOwedScoins\<close> converts both
  64-bit totals to \<^verbatim>\<open>double\<close> and divides. Conversion and division round to the nearest
  binary64 number; the rounding function is the parameter \<open>rnd\<close>. Division follows
  IEEE 754: a non-zero number divided by zero is an infinity, zero divided by zero is NaN.
  (Signed zeros are one value here, which is exact for this program: both operands come
  from unsigned integers. The quotient of two converted non-zero 64-bit integers lies
  between \<open>2^-64\<close> and \<open>2^64\<close>, far inside the range of binary64, so a finite
  quotient stays finite.)
\<close>

definition uint64_to_double :: "(rat \<Rightarrow> rat) \<Rightarrow> uint64_t \<Rightarrow> double" where
  "uint64_to_double rnd n = Finite (rnd (of_nat (unat n)))"

fun double_div :: "(rat \<Rightarrow> rat) \<Rightarrow> double \<Rightarrow> double \<Rightarrow> double" where
  "double_div rnd (Finite a) (Finite b) =
     (if b = 0 then (if a = 0 then NaN else if 0 < a then PosInf else NegInf)
      else Finite (rnd (a / b)))"
| "double_div rnd NaN _ = NaN"
| "double_div rnd _ NaN = NaN"
| "double_div rnd (Finite a) _ = Finite 0"
| "double_div rnd PosInf (Finite b) = (if b < 0 then NegInf else PosInf)"
| "double_div rnd NegInf (Finite b) = (if b < 0 then PosInf else NegInf)"
| "double_div rnd _ _ = NaN"

text \<open>
  What the theorems need of the rounding: zero is exact, and a number that is at least 1
  is not rounded below 1 (binary64 represents 0 and 1 and rounding is monotone).
\<close>

definition rounding_ok :: "(rat \<Rightarrow> rat) \<Rightarrow> bool" where
  "rounding_ok rnd = (rnd 0 = 0 \<and> (\<forall>x. 1 \<le> x \<longrightarrow> 1 \<le> rnd x))"

text \<open>
  The wire encodings of the primitive types (\<^verbatim>\<open>CRegID\<close>, \<^verbatim>\<open>uint256\<close>,
  \<^verbatim>\<open>VARINT\<close> of an \<^verbatim>\<open>int32_t\<close> and of a \<^verbatim>\<open>uint64_t\<close>) live in serialize.h and
  accounts/id.h, outside the sources: each is a pair of a writer and a reader over the
  byte stream. A reader returns the value and the rest of the stream, or \<open>None\<close> where
  the stream throws.
\<close>

type_synonym byte = "8 word"

record 'regid wire_format =
  put_CRegID :: "'regid \<Rightarrow> byte list"
  get_CRegID :: "byte list \<Rightarrow> ('regid \<times> byte list) option"
  put_uint256 :: "uint256 \<Rightarrow> byte list"
  get_uint256 :: "byte list \<Rightarrow> (uint256 \<times> byte list) option"
  put_varint32 :: "int32_t \<Rightarrow> byte list"
  get_varint32 :: "byte list \<Rightarrow> (int32_t \<times> byte list) option"
  put_varint64 :: "uint64_t \<Rightarrow> byte list"
  get_varint64 :: "byte list \<Rightarrow> (uint64_t \<times> byte list) option"

text \<open>
  The primitive encodings reproduce the five persisted members of a record: reading what
  was written for the member gives the member back and leaves the rest of the stream.
\<close>

definition wire_roundtrips_on :: "'regid wire_format \<Rightarrow> 'regid CUserCDP \<Rightarrow> bool" where
  "wire_roundtrips_on w r =
     ((\<forall>s. get_CRegID w (put_CRegID w (ownerRegId r) @ s) = Some (ownerRegId r, s))
      \<and> (\<forall>s. get_uint256 w (put_uint256 w (cdpTxId r) @ s) = Some (cdpTxId r, s))
      \<and> (\<forall>s. get_varint32 w (put_varint32 w (blockHeight r) @ s) = Some (blockHeight r, s))
      \<and> (\<forall>s. get_varint64 w (put_varint64 w (totalStakedBcoins r) @ s) =
                Some (totalStakedBcoins r, s))
      \<and> (\<forall>s. get_varint64 w (put_varint64 w (totalOwedScoins r) @ s) =
                Some (totalOwedScoins r, s)))"

text \<open>The macro body with \<^verbatim>\<open>fRead\<close> false: the five READWRITE lines write in order.\<close>

definition Serialize :: "'regid wire_format \<Rightarrow> 'regid CUserCDP \<Rightarrow> byte list" where
  "Serialize w this =
     put_CRegID w (ownerRegId this) @ put_uint256 w (cdpTxId this)
     @ put_varint32 w (blockHeight this) @ put_varint64 w (totalStakedBcoins this)
     @ put_varint64 w (totalOwedScoins this)"

text \<open>
  The macro body with \<^verbatim>\<open>fRead\<close> true: the five READWRITE lines read in order, then the
  ratio is assigned. Every member is assigned, so the result does not depend on the
  object read into.
\<close>

definition Unserialize ::
  "'regid wire_format \<Rightarrow> (rat \<Rightarrow> rat) \<Rightarrow> byte list \<Rightarrow> ('regid CUserCDP \<times> byte list) option" where
  "Unserialize w rnd s =
     (case get_CRegID w s of None \<Rightarrow> None | Some (regId, s1) \<Rightarrow>
      case get_uint256 w s1 of None \<Rightarrow> None | Some (txId, s2) \<Rightarrow>
      case get_varint32 w s2 of None \<Rightarrow> None | Some (height, s3) \<Rightarrow>
      case get_varint64 w s3 of None \<Rightarrow> None | Some (staked, s4) \<Rightarrow>
      case get_varint64 w s4 of None \<Rightarrow> None | Some (owed, s5) \<Rightarrow>
        Some (\<lparr> collateralRatioBase =
                   double_div rnd (uint64_to_double rnd staked) (uint64_to_double rnd owed),
                 ownerRegId = regId, cdpTxId = txId, blockHeight = height,
                 totalStakedBcoins = staked, totalOwedScoins = owed \<rparr>, s5))"

text \<open>The composite key \<^verbatim>\<open>operator<\<close> reads: ratio, owner, CDP id.\<close>

definition order_key :: "'regid CUserCDP \<Rightarrow> double \<times> 'regid \<times> uint256" where
  "order_key r = (collateralRatioBase r, ownerRegId r, cdpTxId r)"

section \<open>The caches (class CCdpMemCache, class CCdpDBCache)\<close>

text \<open>
  Objects live at addresses. A \<^verbatim>\<open>CCdpMemCache*\<close> in this header always points at the
  \<^verbatim>\<open>cdpMemCache\<close> member of a \<^verbatim>\<open>CCdpDBCache\<close> (\<^verbatim>\<open>&pBaseIn->cdpMemCache\<close>) or is
  null: \<open>MemCacheOf a\<close> is the address of that member of the object at \<open>a\<close>.
  \<^verbatim>\<open>map<CUserCDP, uint8_t> cdps\<close> is the list of its entries as the map iterates them,
  ascending under \<^verbatim>\<open>operator<\<close>; the record of an entry is the map's key object.
\<close>

type_synonym addr = nat

datatype mem_ptr = MemCacheOf addr

record 'regid CCdpMemCache =
  cdps :: "('regid CUserCDP \<times> uint8_t) list"
  totalStakedBcoins_m :: uint64_t
  totalOwedScoins_m :: uint64_t
  pBase :: "mem_ptr option"
  pAccess :: "addr option"

text \<open>\<^verbatim>\<open>CCdpMemCache()\<close>, \<^verbatim>\<open>CCdpMemCache(CCdpMemCache *pBaseIn)\<close> and
  \<^verbatim>\<open>CCdpMemCache(CDBAccess *pAccessIn)\<close>.\<close>

definition CCdpMemCache_new :: "'regid CCdpMemCache" where
  "CCdpMemCache_new =
     \<lparr> cdps = [], totalStakedBcoins_m = 0, totalOwedScoins_m = 0, pBase = None, pAccess = None \<rparr>"

definition CCdpMemCache_on_base :: "mem_ptr option \<Rightarrow> 'regid CCdpMemCache" where
  "CCdpMemCache_on_base pBaseIn =
     \<lparr> cdps = [], totalStakedBcoins_m = 0, totalOwedScoins_m = 0, pBase = pBaseIn, pAccess = None \<rparr>"

definition CCdpMemCache_on_access :: "addr option \<Rightarrow> 'regid CCdpMemCache" where
  "CCdpMemCache_on_access pAccessIn =
     \<lparr> cdps = [], totalStakedBcoins_m = 0, totalOwedScoins_m = 0, pBase = None, pAccess = pAccessIn \<rparr>"

text \<open>
  \<^verbatim>\<open>cdpCache\<close> is a \<^verbatim>\<open>CDBMultiValueCache\<close> (dbaccess.h, outside the sources) from the
  key (owner, CDP id) to the record; its content is the type parameter \<open>'store\<close>.
\<close>

record ('regid, 'store) CCdpDBCache =
  cdpCache :: 'store
  cdpMemCache :: "'regid CCdpMemCache"

text \<open>
  \<^verbatim>\<open>CCdpDBCache(CCdpDBCache *pBaseIn) : cdpCache(pBaseIn->cdpCache),
  cdpMemCache(pBaseIn->cdpMemCache) {}\<close>: both initialisers name an object, not a pointer,
  so each member is copy-constructed from the member of \<^verbatim>\<open>*pBaseIn\<close>. The heap maps an
  address to the object there; dereferencing a pointer to no object has no result.
\<close>

definition CCdpDBCache_on_base ::
  "(addr \<rightharpoonup> ('regid, 'store) CCdpDBCache) \<Rightarrow> addr \<Rightarrow> ('regid, 'store) CCdpDBCache option" where
  "CCdpDBCache_on_base heap pBaseIn =
     (case heap pBaseIn of
        None \<Rightarrow> None
      | Some b \<Rightarrow> Some \<lparr> cdpCache = cdpCache b, cdpMemCache = cdpMemCache b \<rparr>)"

section \<open>Operations declared in cdpdb.h whose bodies are in cdpdb.cpp\<close>

text \<open>
  The header declares these member functions; their bodies (cdpdb.cpp) and the class
  template \<^verbatim>\<open>CDBMultiValueCache\<close> (dbaccess.h) are outside the sources. They are modelled
  from the specification, sections 3 and 4. The \<^verbatim>\<open>bool\<close> a \<^verbatim>\<open>CCdpMemCache\<close> operation
  returns is left out: the specification names no failure for it.
\<close>

text \<open>The flag of an entry, as the header's comment gives it: 0 valid, 1 invalid.\<close>

definition flag_valid :: uint8_t where
  "flag_valid = 0"

definition flag_invalid :: uint8_t where
  "flag_invalid = 1"

text \<open>Modelled from the spec: the identity key of a record, (owner, CDP id).\<close>

definition identity :: "'regid CUserCDP \<Rightarrow> 'regid \<times> uint256" where
  "identity r = (ownerRegId r, cdpTxId r)"

text \<open>
  \<^verbatim>\<open>std::map::find\<close> under the header's \<^verbatim>\<open>operator<\<close>: the first entry whose key is
  not less than the record looked up (the lower bound) is the entry found, unless the
  record is less than that key. Two keys neither of which is less than the other are one
  key to the map; a record whose ratio is NaN is such a key to every other. On an
  ascending map the scan from the least entry stops where the descent of the map's search
  tree ends, also for a NaN key: every comparison with it is false, so the descent goes
  left to the least entry.
\<close>

fun cdps_find ::
  "('regid::linorder) CUserCDP \<Rightarrow> ('regid CUserCDP \<times> uint8_t) list
     \<Rightarrow> ('regid CUserCDP \<times> uint8_t) option" where
  "cdps_find r [] = None"
| "cdps_find r (e # entries) =
     (if CUserCDP_less (fst e) r then cdps_find r entries
      else if CUserCDP_less r (fst e) then None
      else Some e)"

text \<open>
  \<^verbatim>\<open>cdps[r] = flag\<close> (\<^verbatim>\<open>std::map::operator[]\<close>, then the assignment) under the header's
  \<^verbatim>\<open>operator<\<close>: at the lower bound of \<open>r\<close>, a new entry is inserted if the map ends
  there or \<open>r\<close> is less than the key there; otherwise the entry there gets the flag and
  keeps its key object. This is the "inserts/overwrites the entry" of the specification.
\<close>

fun cdps_put ::
  "('regid::linorder) CUserCDP \<Rightarrow> uint8_t \<Rightarrow> ('regid CUserCDP \<times> uint8_t) list
     \<Rightarrow> ('regid CUserCDP \<times> uint8_t) list" where
  "cdps_put r flag [] = [(r, flag)]"
| "cdps_put r flag (e # entries) =
     (if CUserCDP_less (fst e) r then e # cdps_put r flag entries
      else if CUserCDP_less r (fst e) then (r, flag) # e # entries
      else (fst e, flag) # entries)"

text \<open>The invariant of a \<^verbatim>\<open>std::map\<close>: its entries ascend strictly under the comparison.\<close>

definition cdps_ordered :: "('regid::linorder) CCdpMemCache \<Rightarrow> bool" where
  "cdps_ordered this = sorted_wrt CUserCDP_less (map fst (cdps this))"

text \<open>
  Modelled from the spec: \<^verbatim>\<open>CCdpMemCache::SaveCdp\<close>, the body is missing.
  "\<open>Save(record)\<close> inserts/overwrites the entry at key (ratio(record), owner, cdpId)
  as Present, updates sumStaked += record.totalStaked, sumOwed += record.totalOwed."
\<close>

definition SaveCdp ::
  "('regid::linorder) CCdpMemCache \<Rightarrow> 'regid CUserCDP \<Rightarrow> 'regid CCdpMemCache" where
  "SaveCdp this userCdp =
     this\<lparr> cdps := cdps_put userCdp flag_valid (cdps this),
           totalStakedBcoins_m := totalStakedBcoins_m this + totalStakedBcoins userCdp,
           totalOwedScoins_m := totalOwedScoins_m this + totalOwedScoins userCdp \<rparr>"

text \<open>
  Modelled from the spec: \<^verbatim>\<open>CCdpMemCache::EraseCdp\<close>, the body is missing.
  "\<open>Erase(record)\<close> inserts/overwrites the entry at the record's current key as
  Tombstoned in this layer, subtracts from this layer's aggregates if the entry was
  previously Present in this layer, and is idempotent." What is subtracted is the entry
  that was Present.
\<close>

definition EraseCdp ::
  "('regid::linorder) CCdpMemCache \<Rightarrow> 'regid CUserCDP \<Rightarrow> 'regid CCdpMemCache" where
  "EraseCdp this userCdp =
     (case cdps_find userCdp (cdps this) of
        Some (old, flag) \<Rightarrow>
          if flag = flag_valid then
            this\<lparr> cdps := cdps_put userCdp flag_invalid (cdps this),
                  totalStakedBcoins_m := totalStakedBcoins_m this - totalStakedBcoins old,
                  totalOwedScoins_m := totalOwedScoins_m this - totalOwedScoins old \<rparr>
          else this\<lparr> cdps := cdps_put userCdp flag_invalid (cdps this) \<rparr>
      | None \<Rightarrow> this\<lparr> cdps := cdps_put userCdp flag_invalid (cdps this) \<rparr>)"




text \<open>
  Modelled from the spec: the identity store \<^verbatim>\<open>cdpCache\<close> (\<^verbatim>\<open>CDBMultiValueCache\<close>,
  dbaccess.h, is missing), by its content as a read sees it: the record stored at an
  identity key, or nothing. An undo log is the "ordered list of (key, previousValue |
  Absent), append-only".
\<close>

type_synonym 'regid cdp_store = "('regid \<times> uint256) \<rightharpoonup> 'regid CUserCDP"

type_synonym 'regid CDBOpLogMap = "(('regid \<times> uint256) \<times> 'regid CUserCDP option) list"

text \<open>
  Modelled from the spec: \<^verbatim>\<open>CCdpDBCache::SaveCdp(cdp)\<close>, the body is missing.
  "\<open>Save(record[, undoLog])\<close> / \<open>Erase(record[, undoLog])\<close>: direct identity-store
  writes/tombstones, each mirrored into the index, each optionally recording an undo
  entry."
\<close>

definition CCdpDBCache_SaveCdp ::
  "('regid::linorder, 'regid cdp_store) CCdpDBCache \<Rightarrow> 'regid CUserCDP
     \<Rightarrow> ('regid, 'regid cdp_store) CCdpDBCache" where
  "CCdpDBCache_SaveCdp this cdp =
     this\<lparr> cdpCache := (cdpCache this)(identity cdp \<mapsto> cdp),
           cdpMemCache := SaveCdp (cdpMemCache this) cdp \<rparr>"

text \<open>
  Modelled from the spec: \<^verbatim>\<open>CCdpDBCache::SaveCdp(cdp, dbOpLogMap)\<close>, the body is missing:
  the save above, "appending the prior value or Absent-marker to undoLog".
\<close>

definition CCdpDBCache_SaveCdp_log ::
  "('regid::linorder, 'regid cdp_store) CCdpDBCache \<Rightarrow> 'regid CUserCDP \<Rightarrow> 'regid CDBOpLogMap
     \<Rightarrow> ('regid, 'regid cdp_store) CCdpDBCache \<times> 'regid CDBOpLogMap" where
  "CCdpDBCache_SaveCdp_log this cdp dbOpLogMap =
     (CCdpDBCache_SaveCdp this cdp,
      dbOpLogMap @ [(identity cdp, cdpCache this (identity cdp))])"

text \<open>
  Modelled from the spec: \<^verbatim>\<open>CCdpDBCache::EraseCdp(cdp)\<close>, the body is missing: the
  identity-store erase, mirrored into the index.
\<close>

definition CCdpDBCache_EraseCdp ::
  "('regid::linorder, 'regid cdp_store) CCdpDBCache \<Rightarrow> 'regid CUserCDP
     \<Rightarrow> ('regid, 'regid cdp_store) CCdpDBCache" where
  "CCdpDBCache_EraseCdp this cdp =
     this\<lparr> cdpCache := (cdpCache this)(identity cdp := None),
           cdpMemCache := EraseCdp (cdpMemCache this) cdp \<rparr>"

text \<open>
  Modelled from the spec: the test of \<^verbatim>\<open>StakeBcoinsToCdp\<close> (its body is missing) that
  "the additions would overflow 64-bit totals".
\<close>

definition stake_overflows :: "'regid CUserCDP \<Rightarrow> uint64_t \<Rightarrow> uint64_t \<Rightarrow> bool" where
  "stake_overflows cdp bcoinsToStake mintedScoins =
     (2 ^ 64 \<le> unat (totalStakedBcoins cdp) + unat bcoinsToStake
      \<or> 2 ^ 64 \<le> unat (totalOwedScoins cdp) + unat mintedScoins)"

text \<open>
  Modelled from the spec: the record \<^verbatim>\<open>StakeBcoinsToCdp\<close> (its body is missing) computes.
  "If record is the empty sentinel, this is a new CDP: set totalStaked = stakeAmount,
  totalOwed = mintAmount, lastOpHeight = height; else it is an update: [...] set
  totalStaked += stakeAmount, totalOwed += mintAmount, lastOpHeight = height." The new
  ratio is the derived one, totalStaked / totalOwed, computed as on reading.
\<close>

definition staked_cdp ::
  "(rat \<Rightarrow> rat) \<Rightarrow> int32_t \<Rightarrow> uint64_t \<Rightarrow> uint64_t \<Rightarrow> 'regid CUserCDP \<Rightarrow> 'regid CUserCDP" where
  "staked_cdp rnd height bcoinsToStake mintedScoins cdp =
     (let staked = (if IsEmpty cdp then bcoinsToStake else totalStakedBcoins cdp + bcoinsToStake);
          owed = (if IsEmpty cdp then mintedScoins else totalOwedScoins cdp + mintedScoins)
      in cdp\<lparr> collateralRatioBase :=
                 double_div rnd (uint64_to_double rnd staked) (uint64_to_double rnd owed),
               blockHeight := height, totalStakedBcoins := staked, totalOwedScoins := owed \<rparr>)"

text \<open>
  Modelled from the spec: \<^verbatim>\<open>CCdpDBCache::StakeBcoinsToCdp\<close>, the body is missing.
  "If record is the empty sentinel, this is a new CDP: set totalStaked = stakeAmount,
  totalOwed = mintAmount, lastOpHeight = height; else it is an update: first remove the
  index entry under the record's current ratio, then set totalStaked += stakeAmount,
  totalOwed += mintAmount, lastOpHeight = height. Fails (no state change) if the additions
  would overflow 64-bit totals. After computing the new state, writes it to the identity
  store (appending the prior value or Absent-marker to undoLog) and inserts it into the
  index under the new ratio. Returns the updated record to the caller."
\<close>

definition StakeBcoinsToCdp ::
  "(rat \<Rightarrow> rat) \<Rightarrow> ('regid::linorder, 'regid cdp_store) CCdpDBCache \<Rightarrow> int32_t \<Rightarrow> uint64_t \<Rightarrow> uint64_t
     \<Rightarrow> 'regid CUserCDP \<Rightarrow> 'regid CDBOpLogMap
     \<Rightarrow> bool \<times> ('regid, 'regid cdp_store) CCdpDBCache \<times> 'regid CUserCDP \<times> 'regid CDBOpLogMap" where
  "StakeBcoinsToCdp rnd this height bcoinsToStake mintedScoins cdp dbOpLogMap =
     (if IsEmpty cdp then
        (let cdp' = staked_cdp rnd height bcoinsToStake mintedScoins cdp;
             (this', log') = CCdpDBCache_SaveCdp_log this cdp' dbOpLogMap
         in (True, this', cdp', log'))
      else if stake_overflows cdp bcoinsToStake mintedScoins then
        (False, this, cdp, dbOpLogMap)
      else
        (let erased = this\<lparr> cdpMemCache := EraseCdp (cdpMemCache this) cdp \<rparr>;
             cdp' = staked_cdp rnd height bcoinsToStake mintedScoins cdp;
             (this', log') = CCdpDBCache_SaveCdp_log erased cdp' dbOpLogMap
         in (True, this', cdp', log')))"

text \<open>
  Modelled from the spec: what undoing one log entry does to the identity store
  ("restoring prior values, deleting entries that were Absent before");
  \<^verbatim>\<open>CDBMultiValueCache\<close> is missing.
\<close>

definition undo_entry ::
  "('regid \<times> uint256) \<times> 'regid CUserCDP option \<Rightarrow> 'regid cdp_store \<Rightarrow> 'regid cdp_store" where
  "undo_entry e store =
     (case snd e of None \<Rightarrow> store(fst e := None) | Some v \<Rightarrow> store(fst e \<mapsto> v))"

text \<open>
  Modelled from the spec: \<^verbatim>\<open>CDBMultiValueCache::UndoData\<close>, which \<^verbatim>\<open>UndoCdp\<close> calls,
  is missing. "\<open>Undo(undoLog)\<close> replays entries in reverse order against the identity
  store only."
\<close>

definition UndoData :: "'regid cdp_store \<Rightarrow> 'regid CDBOpLogMap \<Rightarrow> bool \<times> 'regid cdp_store" where
  "UndoData store dbOpLogMap = (True, fold undo_entry (rev dbOpLogMap) store)"

text \<open>\<^verbatim>\<open>bool UndoCdp(CDBOpLogMap &dbOpLogMap) { return cdpCache.UndoData(dbOpLogMap); }\<close>\<close>

definition UndoCdp ::
  "('regid, 'regid cdp_store) CCdpDBCache \<Rightarrow> 'regid CDBOpLogMap
     \<Rightarrow> bool \<times> ('regid, 'regid cdp_store) CCdpDBCache" where
  "UndoCdp this dbOpLogMap =
     (let (ok, store) = UndoData (cdpCache this) dbOpLogMap in (ok, this\<lparr> cdpCache := store \<rparr>))"

section \<open>Properties\<close>

subsection \<open>Comparisons of doubles\<close>

lemma double_less_irrefl: "\<not> double_less a a"
  by (cases a) simp_all

lemma double_less_trans: "double_less a b \<Longrightarrow> double_less b c \<Longrightarrow> double_less a c"
  by (cases a; cases b; cases c) simp_all

lemma double_eq_iff: "double_eq a b \<longleftrightarrow> a = b \<and> a \<noteq> NaN"
  by (cases a; cases b) auto

lemma double_less_not_eq: "double_less a b \<Longrightarrow> \<not> double_eq a b"
  by (cases a; cases b) simp_all

lemma double_less_asym: "double_less a b \<Longrightarrow> \<not> double_less b a"
  by (cases a; cases b) simp_all

lemma double_trichotomy:
  "a \<noteq> NaN \<Longrightarrow> b \<noteq> NaN \<Longrightarrow> a \<noteq> b \<Longrightarrow> double_less a b \<or> double_less b a"
  by (cases a; cases b) auto

lemma CUserCDP_less_lex:
  "CUserCDP_less a b \<longleftrightarrow>
     double_less (collateralRatioBase a) (collateralRatioBase b)
     \<or> (double_eq (collateralRatioBase a) (collateralRatioBase b)
        \<and> (ownerRegId a < ownerRegId b \<or> (ownerRegId a = ownerRegId b \<and> cdpTxId a < cdpTxId b)))"
  by (auto simp: CUserCDP_less_def dest: double_less_not_eq)

subsection \<open>The ratio assigned on reading\<close>

lemma one_le_of_nat_unat:
  fixes n :: uint64_t
  assumes "n \<noteq> 0"
  shows "(1::rat) \<le> of_nat (unat n)"
proof -
  from assms have "1 \<le> unat n"
    by (simp add: unat_gt_0 Suc_leI)
  then show ?thesis
    by (metis of_nat_1 of_nat_le_iff)
qed

lemma ratio_zero_debt:
  assumes "rounding_ok rnd" "staked \<noteq> 0"
  shows "double_div rnd (uint64_to_double rnd staked) (uint64_to_double rnd 0) = PosInf"
proof -
  from one_le_of_nat_unat [OF assms(2)] assms(1)
  have "1 \<le> rnd (of_nat (unat staked))"
    unfolding rounding_ok_def by blast
  with assms(1) show ?thesis
    by (auto simp: uint64_to_double_def rounding_ok_def)
qed

lemma ratio_nonzero_debt:
  assumes "rounding_ok rnd" "owed \<noteq> 0"
  shows "double_div rnd (uint64_to_double rnd staked) (uint64_to_double rnd owed) =
    Finite (rnd (rnd (of_nat (unat staked)) / rnd (of_nat (unat owed))))"
proof -
  from one_le_of_nat_unat [OF assms(2)] assms(1)
  have "1 \<le> rnd (of_nat (unat owed))"
    unfolding rounding_ok_def by blast
  then show ?thesis
    by (auto simp: uint64_to_double_def)
qed

lemma Unserialize_Serialize:
  assumes "wire_roundtrips_on w r"
  shows "Unserialize w rnd (Serialize w r @ s) =
     Some (r\<lparr> collateralRatioBase :=
               double_div rnd (uint64_to_double rnd (totalStakedBcoins r))
                 (uint64_to_double rnd (totalOwedScoins r)) \<rparr>, s)"
  using assms by (simp add: wire_roundtrips_on_def Unserialize_def Serialize_def)

lemma Unserialize_ratio:
  assumes "Unserialize w rnd s = Some (r, t)"
  shows "collateralRatioBase r =
     double_div rnd (uint64_to_double rnd (totalStakedBcoins r))
       (uint64_to_double rnd (totalOwedScoins r))"
  using assms by (auto simp: Unserialize_def split: option.splits)

text \<open>A unary byte code, to have one wire format at hand that round-trips.\<close>

lemma unary_code_roundtrip:
  "takeWhile (\<lambda>b. b \<noteq> 0) (replicate n (1::byte) @ 0 # s) = replicate n 1"
  "dropWhile (\<lambda>b. b \<noteq> 0) (replicate n (1::byte) @ 0 # s) = 0 # s"
  by (induction n) simp_all

subsection \<open>The claims settled on the code of cdpdb.h\<close>

text \<open>
  Claim C6, as amended. Writing a record and reading it back (given primitive encodings
  that reproduce its five persisted members) reproduces \<^verbatim>\<open>ownerRegId\<close>, \<^verbatim>\<open>cdpTxId\<close>, \<^verbatim>\<open>blockHeight\<close>,
  \<^verbatim>\<open>totalStakedBcoins\<close> and \<^verbatim>\<open>totalOwedScoins\<close> exactly and consumes exactly the
  bytes written. The ratio read back is the double quotient of the two totals read back:
  a finite number when the debt is not zero, and plus infinity when the debt is zero and
  the stake is not. Reading does not fail on zero debt.
\<close>

theorem Unserialize_Serialize_roundtrip:
  assumes "wire_roundtrips_on w r" and "rounding_ok rnd"
  shows "\<exists>r'. Unserialize w rnd (Serialize w r @ s) = Some (r', s)
     \<and> ownerRegId r' = ownerRegId r \<and> cdpTxId r' = cdpTxId r
     \<and> blockHeight r' = blockHeight r
     \<and> totalStakedBcoins r' = totalStakedBcoins r
     \<and> totalOwedScoins r' = totalOwedScoins r
     \<and> collateralRatioBase r' =
         double_div rnd (uint64_to_double rnd (totalStakedBcoins r'))
           (uint64_to_double rnd (totalOwedScoins r'))
     \<and> (totalOwedScoins r' \<noteq> 0 \<longrightarrow>
          collateralRatioBase r' =
            Finite (rnd (rnd (of_nat (unat (totalStakedBcoins r')))
                         / rnd (of_nat (unat (totalOwedScoins r'))))))
     \<and> (totalOwedScoins r' = 0 \<and> totalStakedBcoins r' \<noteq> 0 \<longrightarrow>
          collateralRatioBase r' = PosInf)"
proof -
  let ?q = "double_div rnd (uint64_to_double rnd (totalStakedBcoins r))
              (uint64_to_double rnd (totalOwedScoins r))"
  let ?r = "r\<lparr> collateralRatioBase := ?q \<rparr>"
  have "Unserialize w rnd (Serialize w r @ s) = Some (?r, s)"
    using assms(1) by (rule Unserialize_Serialize)
  moreover have "totalOwedScoins r \<noteq> 0 \<Longrightarrow>
      ?q = Finite (rnd (rnd (of_nat (unat (totalStakedBcoins r)))
                        / rnd (of_nat (unat (totalOwedScoins r)))))"
    using assms(2) by (rule ratio_nonzero_debt)
  moreover have "totalOwedScoins r = 0 \<Longrightarrow> totalStakedBcoins r \<noteq> 0 \<Longrightarrow> ?q = PosInf"
    using ratio_zero_debt [OF assms(2), of "totalStakedBcoins r"] by simp
  ultimately show ?thesis
    by (intro exI [of _ ?r]) simp
qed

theorem Unserialize_Serialize_roundtrip_witness:
  "(let w = \<lparr> put_CRegID = (\<lambda>x. replicate x 1 @ [0]),
               get_CRegID = (\<lambda>s. Some (length (takeWhile (\<lambda>b. b \<noteq> 0) s),
                                        tl (dropWhile (\<lambda>b. b \<noteq> 0) s))),
               put_uint256 = (\<lambda>x. replicate (unat x) 1 @ [0]),
               get_uint256 = (\<lambda>s. Some (of_nat (length (takeWhile (\<lambda>b. b \<noteq> 0) s)),
                                         tl (dropWhile (\<lambda>b. b \<noteq> 0) s))),
               put_varint32 = (\<lambda>x. replicate (unat x) 1 @ [0]),
               get_varint32 = (\<lambda>s. Some (of_nat (length (takeWhile (\<lambda>b. b \<noteq> 0) s)),
                                          tl (dropWhile (\<lambda>b. b \<noteq> 0) s))),
               put_varint64 = (\<lambda>x. replicate (unat x) 1 @ [0]),
               get_varint64 = (\<lambda>s. Some (of_nat (length (takeWhile (\<lambda>b. b \<noteq> 0) s)),
                                          tl (dropWhile (\<lambda>b. b \<noteq> 0) s))) \<rparr>;
        r = \<lparr> collateralRatioBase = NaN, ownerRegId = (2::nat), cdpTxId = 1,
               blockHeight = 3, totalStakedBcoins = 6, totalOwedScoins = 0 \<rparr>
    in wire_roundtrips_on w r \<and> rounding_ok (\<lambda>x. x)
       \<and> Unserialize w (\<lambda>x. x) (Serialize w r @ []) =
           Some (r\<lparr> collateralRatioBase := PosInf \<rparr>, []))"
proof -
  let ?w = "\<lparr> put_CRegID = (\<lambda>x. replicate x 1 @ [0]),
               get_CRegID = (\<lambda>s. Some (length (takeWhile (\<lambda>b. b \<noteq> 0) s),
                                        tl (dropWhile (\<lambda>b. b \<noteq> 0) s))),
               put_uint256 = (\<lambda>x. replicate (unat x) 1 @ [0]),
               get_uint256 = (\<lambda>s. Some (of_nat (length (takeWhile (\<lambda>b. b \<noteq> 0) s)),
                                         tl (dropWhile (\<lambda>b. b \<noteq> 0) s))),
               put_varint32 = (\<lambda>x. replicate (unat x) 1 @ [0]),
               get_varint32 = (\<lambda>s. Some (of_nat (length (takeWhile (\<lambda>b. b \<noteq> 0) s)),
                                          tl (dropWhile (\<lambda>b. b \<noteq> 0) s))),
               put_varint64 = (\<lambda>x. replicate (unat x) 1 @ [0]),
               get_varint64 = (\<lambda>s. Some (of_nat (length (takeWhile (\<lambda>b. b \<noteq> 0) s)),
                                          tl (dropWhile (\<lambda>b. b \<noteq> 0) s))) \<rparr>
             :: nat wire_format"
  let ?r = "\<lparr> collateralRatioBase = NaN, ownerRegId = (2::nat), cdpTxId = 1,
               blockHeight = 3, totalStakedBcoins = 6, totalOwedScoins = 0 \<rparr>"
  have w: "wire_roundtrips_on ?w ?r"
    by (simp add: wire_roundtrips_on_def unary_code_roundtrip)
  have k: "rounding_ok (\<lambda>x. x)"
    by (simp add: rounding_ok_def)
  from Unserialize_Serialize_roundtrip [OF w k, of "[]"]
  obtain r' where r': "Unserialize ?w (\<lambda>x. x) (Serialize ?w ?r @ []) = Some (r', [])"
    "ownerRegId r' = 2" "cdpTxId r' = 1" "blockHeight r' = 3"
    "totalStakedBcoins r' = 6" "totalOwedScoins r' = 0" "collateralRatioBase r' = PosInf"
    by auto
  then have "r' = ?r\<lparr> collateralRatioBase := PosInf \<rparr>"
    by (cases r') simp
  with r'(1) w k show ?thesis
    unfolding Let_def by simp
qed

text \<open>
  Against C6 as stated: a record with zero stake and zero debt is read back with ratio NaN
  (zero divided by zero), which is not the infinite value.
\<close>

theorem Unserialize_zero_over_zero_counterexample:
  "(let w = \<lparr> put_CRegID = (\<lambda>x. replicate x 1 @ [0]),
               get_CRegID = (\<lambda>s. Some (length (takeWhile (\<lambda>b. b \<noteq> 0) s),
                                        tl (dropWhile (\<lambda>b. b \<noteq> 0) s))),
               put_uint256 = (\<lambda>x. replicate (unat x) 1 @ [0]),
               get_uint256 = (\<lambda>s. Some (of_nat (length (takeWhile (\<lambda>b. b \<noteq> 0) s)),
                                         tl (dropWhile (\<lambda>b. b \<noteq> 0) s))),
               put_varint32 = (\<lambda>x. replicate (unat x) 1 @ [0]),
               get_varint32 = (\<lambda>s. Some (of_nat (length (takeWhile (\<lambda>b. b \<noteq> 0) s)),
                                          tl (dropWhile (\<lambda>b. b \<noteq> 0) s))),
               put_varint64 = (\<lambda>x. replicate (unat x) 1 @ [0]),
               get_varint64 = (\<lambda>s. Some (of_nat (length (takeWhile (\<lambda>b. b \<noteq> 0) s)),
                                          tl (dropWhile (\<lambda>b. b \<noteq> 0) s))) \<rparr>;
        r = \<lparr> collateralRatioBase = PosInf, ownerRegId = (2::nat), cdpTxId = 1,
               blockHeight = 3, totalStakedBcoins = 0, totalOwedScoins = 0 \<rparr>
    in wire_roundtrips_on w r \<and> rounding_ok (\<lambda>x. x) \<and> totalOwedScoins r = 0
       \<and> Unserialize w (\<lambda>x. x) (Serialize w r) = Some (r\<lparr> collateralRatioBase := NaN \<rparr>, [])
       \<and> NaN \<noteq> PosInf)"
  by (simp add: Unserialize_def Serialize_def uint64_to_double_def unary_code_roundtrip
      wire_roundtrips_on_def rounding_ok_def Let_def)

text \<open>
  Claim C7, as amended. \<^verbatim>\<open>operator<\<close> is a strict order (irreflexive, transitive) that
  compares by ratio first, then by owner, then by CDP id. Two records whose composite keys
  (ratio, owner, CDP id) differ and whose ratios are numbers (not NaN) are ordered one way
  and not the other.
\<close>

theorem CUserCDP_less_order:
  fixes a b c :: "('regid::linorder) CUserCDP"
  shows "\<not> CUserCDP_less a a
   \<and> (CUserCDP_less a b \<longrightarrow> CUserCDP_less b c \<longrightarrow> CUserCDP_less a c)
   \<and> (CUserCDP_less a b \<longleftrightarrow>
        double_less (collateralRatioBase a) (collateralRatioBase b)
        \<or> (double_eq (collateralRatioBase a) (collateralRatioBase b)
           \<and> (ownerRegId a < ownerRegId b
               \<or> (ownerRegId a = ownerRegId b \<and> cdpTxId a < cdpTxId b))))
   \<and> (collateralRatioBase a \<noteq> NaN \<longrightarrow> collateralRatioBase b \<noteq> NaN \<longrightarrow>
        order_key a \<noteq> order_key b \<longrightarrow>
        (CUserCDP_less a b \<and> \<not> CUserCDP_less b a) \<or> (CUserCDP_less b a \<and> \<not> CUserCDP_less a b))"
proof (intro conjI impI)
  show "\<not> CUserCDP_less a a"
    by (simp add: CUserCDP_less_def double_less_irrefl)
next
  assume "CUserCDP_less a b" "CUserCDP_less b c"
  then show "CUserCDP_less a c"
    unfolding CUserCDP_less_lex
    by (auto simp: double_eq_iff dest: double_less_trans)
next
  show "CUserCDP_less a b \<longleftrightarrow>
        double_less (collateralRatioBase a) (collateralRatioBase b)
        \<or> (double_eq (collateralRatioBase a) (collateralRatioBase b)
           \<and> (ownerRegId a < ownerRegId b
               \<or> (ownerRegId a = ownerRegId b \<and> cdpTxId a < cdpTxId b)))"
    by (rule CUserCDP_less_lex)
next
  assume n: "collateralRatioBase a \<noteq> NaN" "collateralRatioBase b \<noteq> NaN"
    and k: "order_key a \<noteq> order_key b"
  show "(CUserCDP_less a b \<and> \<not> CUserCDP_less b a) \<or> (CUserCDP_less b a \<and> \<not> CUserCDP_less a b)"
  proof (cases "collateralRatioBase a = collateralRatioBase b")
    case True
    with n have e: "double_eq (collateralRatioBase a) (collateralRatioBase b)"
      "double_eq (collateralRatioBase b) (collateralRatioBase a)"
      by (simp_all add: double_eq_iff)
    from True k have "ownerRegId a \<noteq> ownerRegId b \<or> cdpTxId a \<noteq> cdpTxId b"
      by (simp add: order_key_def)
    with e show ?thesis
      by (auto simp: CUserCDP_less_def)
  next
    case False
    with n have "double_less (collateralRatioBase a) (collateralRatioBase b)
        \<or> double_less (collateralRatioBase b) (collateralRatioBase a)"
      by (simp add: double_trichotomy)
    with False show ?thesis
      by (auto simp: CUserCDP_less_def double_eq_iff dest: double_less_asym)
  qed
qed

theorem CUserCDP_less_order_witness:
  "(let a = \<lparr> collateralRatioBase = Finite 1, ownerRegId = (7::nat), cdpTxId = 1,
               blockHeight = 0, totalStakedBcoins = 5, totalOwedScoins = 5 \<rparr>;
        b = \<lparr> collateralRatioBase = Finite 1, ownerRegId = (7::nat), cdpTxId = 2,
               blockHeight = 0, totalStakedBcoins = 5, totalOwedScoins = 5 \<rparr>;
        c = \<lparr> collateralRatioBase = PosInf, ownerRegId = (3::nat), cdpTxId = 0,
               blockHeight = 0, totalStakedBcoins = 5, totalOwedScoins = 0 \<rparr>
    in CUserCDP_less a b \<and> CUserCDP_less b c \<and> CUserCDP_less a c
       \<and> collateralRatioBase a \<noteq> NaN \<and> collateralRatioBase b \<noteq> NaN
       \<and> order_key a \<noteq> order_key b \<and> \<not> CUserCDP_less b a)"
  using CUserCDP_less_order
    [of "\<lparr> collateralRatioBase = Finite 1, ownerRegId = (7::nat), cdpTxId = 1,
               blockHeight = 0, totalStakedBcoins = 5, totalOwedScoins = 5 \<rparr>"
        "\<lparr> collateralRatioBase = Finite 1, ownerRegId = (7::nat), cdpTxId = 2,
               blockHeight = 0, totalStakedBcoins = 5, totalOwedScoins = 5 \<rparr>"
        "\<lparr> collateralRatioBase = PosInf, ownerRegId = (3::nat), cdpTxId = 0,
               blockHeight = 0, totalStakedBcoins = 5, totalOwedScoins = 0 \<rparr>"]
  by (simp add: CUserCDP_less_def order_key_def)

text \<open>
  Against C7 as stated: two distinct records that differ in \<^verbatim>\<open>blockHeight\<close> alone are
  ordered neither way, and a record whose ratio is NaN is ordered neither way with a
  record of another key.
\<close>

theorem CUserCDP_less_not_total_counterexample:
  "(let a = \<lparr> collateralRatioBase = Finite 2, ownerRegId = (7::nat), cdpTxId = 1,
               blockHeight = 10, totalStakedBcoins = 4, totalOwedScoins = 2 \<rparr>;
        b = \<lparr> collateralRatioBase = Finite 2, ownerRegId = (7::nat), cdpTxId = 1,
               blockHeight = 11, totalStakedBcoins = 4, totalOwedScoins = 2 \<rparr>;
        n = \<lparr> collateralRatioBase = NaN, ownerRegId = (8::nat), cdpTxId = 3,
               blockHeight = 10, totalStakedBcoins = 0, totalOwedScoins = 0 \<rparr>
    in a \<noteq> b \<and> \<not> CUserCDP_less a b \<and> \<not> CUserCDP_less b a
       \<and> a \<noteq> n \<and> order_key a \<noteq> order_key n
       \<and> \<not> CUserCDP_less a n \<and> \<not> CUserCDP_less n a)"
  by (simp add: CUserCDP_less_def order_key_def)

text \<open>
  Claim C8, as amended. Of two records read from the store, one with zero debt and a
  non-zero stake and one with non-zero debt, the zero-debt record sorts after the other
  under \<^verbatim>\<open>operator<\<close>: its ratio is plus infinity, the other's is finite.
\<close>

theorem zero_debt_sorts_last:
  fixes r1 r2 :: "('regid::linorder) CUserCDP"
  assumes "rounding_ok rnd"
    and "Unserialize w rnd s1 = Some (r1, t1)"
    and "Unserialize w rnd s2 = Some (r2, t2)"
    and "totalOwedScoins r1 = 0" and "totalStakedBcoins r1 \<noteq> 0"
    and "totalOwedScoins r2 \<noteq> 0"
  shows "CUserCDP_less r2 r1 \<and> \<not> CUserCDP_less r1 r2"
proof -
  have "collateralRatioBase r1 = PosInf"
    using Unserialize_ratio [OF assms(2)] ratio_zero_debt [OF assms(1) assms(5)] assms(4)
    by simp
  moreover have "\<exists>q. collateralRatioBase r2 = Finite q"
    using Unserialize_ratio [OF assms(3)] ratio_nonzero_debt [OF assms(1) assms(6)]
    by simp
  ultimately show ?thesis
    by (auto simp: CUserCDP_less_def)
qed

theorem zero_debt_sorts_last_witness:
  "(let w = \<lparr> put_CRegID = (\<lambda>x. [x]),
               get_CRegID = (\<lambda>s. case s of [] \<Rightarrow> None | b # t \<Rightarrow> Some (b, t)),
               put_uint256 = (\<lambda>x. [ucast x]),
               get_uint256 = (\<lambda>s. case s of [] \<Rightarrow> None | b # t \<Rightarrow> Some (ucast b, t)),
               put_varint32 = (\<lambda>x. [ucast x]),
               get_varint32 = (\<lambda>s. case s of [] \<Rightarrow> None | b # t \<Rightarrow> Some (ucast b, t)),
               put_varint64 = (\<lambda>x. [ucast x]),
               get_varint64 = (\<lambda>s. case s of [] \<Rightarrow> None | b # t \<Rightarrow> Some (ucast b, t)) \<rparr>;
        r1 = \<lparr> collateralRatioBase = PosInf, ownerRegId = (1::byte), cdpTxId = 1,
                blockHeight = 1, totalStakedBcoins = 7, totalOwedScoins = 0 \<rparr>;
        r2 = \<lparr> collateralRatioBase = Finite 2, ownerRegId = (1::byte), cdpTxId = 2,
                blockHeight = 1, totalStakedBcoins = 4, totalOwedScoins = 2 \<rparr>
    in rounding_ok (\<lambda>x. x)
       \<and> Unserialize w (\<lambda>x. x) [1, 1, 1, 7, 0] = Some (r1, [])
       \<and> Unserialize w (\<lambda>x. x) [1, 2, 1, 4, 2] = Some (r2, [])
       \<and> totalOwedScoins r1 = 0 \<and> totalStakedBcoins r1 \<noteq> 0 \<and> totalOwedScoins r2 \<noteq> 0
       \<and> CUserCDP_less r2 r1 \<and> \<not> CUserCDP_less r1 r2)"
proof -
  let ?w = "\<lparr> put_CRegID = (\<lambda>x. [x]),
               get_CRegID = (\<lambda>s. case s of [] \<Rightarrow> None | b # t \<Rightarrow> Some (b, t)),
               put_uint256 = (\<lambda>x. [ucast x]),
               get_uint256 = (\<lambda>s. case s of [] \<Rightarrow> None | b # t \<Rightarrow> Some (ucast b, t)),
               put_varint32 = (\<lambda>x. [ucast x]),
               get_varint32 = (\<lambda>s. case s of [] \<Rightarrow> None | b # t \<Rightarrow> Some (ucast b, t)),
               put_varint64 = (\<lambda>x. [ucast x]),
               get_varint64 = (\<lambda>s. case s of [] \<Rightarrow> None | b # t \<Rightarrow> Some (ucast b, t)) \<rparr>
             :: byte wire_format"
  let ?r1 = "\<lparr> collateralRatioBase = PosInf, ownerRegId = (1::byte), cdpTxId = 1,
                blockHeight = 1, totalStakedBcoins = 7, totalOwedScoins = 0 \<rparr>"
  let ?r2 = "\<lparr> collateralRatioBase = Finite 2, ownerRegId = (1::byte), cdpTxId = 2,
                blockHeight = 1, totalStakedBcoins = 4, totalOwedScoins = 2 \<rparr>"
  have k: "rounding_ok (\<lambda>x. x)"
    by (simp add: rounding_ok_def)
  have u1: "Unserialize ?w (\<lambda>x. x) [1, 1, 1, 7, 0] = Some (?r1, [])"
    by (simp add: Unserialize_def uint64_to_double_def)
  have u2: "Unserialize ?w (\<lambda>x. x) [1, 2, 1, 4, 2] = Some (?r2, [])"
    by (simp add: Unserialize_def uint64_to_double_def)
  have "CUserCDP_less ?r2 ?r1 \<and> \<not> CUserCDP_less ?r1 ?r2"
    by (rule zero_debt_sorts_last [OF k u1 u2]) simp_all
  with k u1 u2 show ?thesis
    unfolding Let_def by simp
qed

text \<open>
  Against C8 as stated: a record read with zero debt and zero stake has ratio NaN and does
  not sort after a record with debt.
\<close>

theorem zero_debt_zero_stake_counterexample:
  "(let w = \<lparr> put_CRegID = (\<lambda>x. [x]),
               get_CRegID = (\<lambda>s. case s of [] \<Rightarrow> None | b # t \<Rightarrow> Some (b, t)),
               put_uint256 = (\<lambda>x. [ucast x]),
               get_uint256 = (\<lambda>s. case s of [] \<Rightarrow> None | b # t \<Rightarrow> Some (ucast b, t)),
               put_varint32 = (\<lambda>x. [ucast x]),
               get_varint32 = (\<lambda>s. case s of [] \<Rightarrow> None | b # t \<Rightarrow> Some (ucast b, t)),
               put_varint64 = (\<lambda>x. [ucast x]),
               get_varint64 = (\<lambda>s. case s of [] \<Rightarrow> None | b # t \<Rightarrow> Some (ucast b, t)) \<rparr>;
        r1 = \<lparr> collateralRatioBase = NaN, ownerRegId = (1::byte), cdpTxId = 1,
                blockHeight = 1, totalStakedBcoins = 0, totalOwedScoins = 0 \<rparr>;
        r2 = \<lparr> collateralRatioBase = Finite 2, ownerRegId = (1::byte), cdpTxId = 2,
                blockHeight = 1, totalStakedBcoins = 4, totalOwedScoins = 2 \<rparr>
    in Unserialize w (\<lambda>x. x) [1, 1, 1, 0, 0] = Some (r1, [])
       \<and> Unserialize w (\<lambda>x. x) [1, 2, 1, 4, 2] = Some (r2, [])
       \<and> totalOwedScoins r1 = 0 \<and> totalOwedScoins r2 \<noteq> 0
       \<and> \<not> CUserCDP_less r2 r1 \<and> \<not> CUserCDP_less r1 r2)"
  by (simp add: Unserialize_def uint64_to_double_def CUserCDP_less_def Let_def)

text \<open>
  Claim C9. For every base cache \<^verbatim>\<open>b\<close>, at whatever address \<open>p\<close>, \<^verbatim>\<open>CCdpDBCache(&b)\<close>
  constructs an object, and it copies both members of \<^verbatim>\<open>b\<close>: the new object's
  \<^verbatim>\<open>cdpMemCache\<close> holds \<^verbatim>\<open>b.cdpMemCache\<close>'s entries and totals, and its \<^verbatim>\<open>pBase\<close> is
  \<^verbatim>\<open>b.cdpMemCache\<close>'s own \<^verbatim>\<open>pBase\<close>: it points at \<^verbatim>\<open>b.cdpMemCache\<close> only if
  \<^verbatim>\<open>b\<close>'s own did. The new layer is the empty layer chained under \<^verbatim>\<open>b\<close> (what
  \<^verbatim>\<open>CCdpMemCache(&b.cdpMemCache)\<close> constructs) exactly when \<^verbatim>\<open>b.cdpMemCache\<close> already
  is that layer.
\<close>

theorem CCdpDBCache_on_base_copies:
  "\<exists>n. CCdpDBCache_on_base (heap(p \<mapsto> b)) p = Some n
     \<and> cdpMemCache n = cdpMemCache b
     \<and> cdps (cdpMemCache n) = cdps (cdpMemCache b)
     \<and> totalStakedBcoins_m (cdpMemCache n) = totalStakedBcoins_m (cdpMemCache b)
     \<and> totalOwedScoins_m (cdpMemCache n) = totalOwedScoins_m (cdpMemCache b)
     \<and> pBase (cdpMemCache n) = pBase (cdpMemCache b)
     \<and> (pBase (cdpMemCache n) = Some (MemCacheOf p)
          \<longleftrightarrow> pBase (cdpMemCache b) = Some (MemCacheOf p))
     \<and> cdpCache n = cdpCache b
     \<and> (cdpMemCache n = CCdpMemCache_on_base (Some (MemCacheOf p))
          \<longleftrightarrow> cdpMemCache b = CCdpMemCache_on_base (Some (MemCacheOf p)))"
  by (simp add: CCdpDBCache_on_base_def)

theorem CCdpDBCache_on_base_copies_witness:
  "(let r = \<lparr> collateralRatioBase = Finite 2, ownerRegId = (7::nat), cdpTxId = 1,
               blockHeight = 10, totalStakedBcoins = 4, totalOwedScoins = 2 \<rparr>;
        m = \<lparr> cdps = [(r, 0)], totalStakedBcoins_m = 4, totalOwedScoins_m = 2,
               pBase = Some (MemCacheOf 1), pAccess = None \<rparr>;
        b = \<lparr> cdpCache = [((7::nat, 1::uint256), r)], cdpMemCache = m \<rparr>
    in CCdpDBCache_on_base (Map.empty(2 \<mapsto> b)) 2 = Some b
       \<and> pBase (cdpMemCache b) = Some (MemCacheOf 1)
       \<and> pBase (cdpMemCache b) \<noteq> Some (MemCacheOf 2)
       \<and> cdpMemCache b \<noteq> CCdpMemCache_on_base (Some (MemCacheOf 2)))"
  using CCdpDBCache_on_base_copies
    [of Map.empty 2
        "\<lparr> cdpCache = [((7::nat, 1::uint256),
             \<lparr> collateralRatioBase = Finite 2, ownerRegId = (7::nat), cdpTxId = 1,
               blockHeight = 10, totalStakedBcoins = 4, totalOwedScoins = 2 \<rparr>)],
           cdpMemCache = \<lparr> cdps = [(\<lparr> collateralRatioBase = Finite 2, ownerRegId = (7::nat),
               cdpTxId = 1, blockHeight = 10, totalStakedBcoins = 4, totalOwedScoins = 2 \<rparr>, 0)],
             totalStakedBcoins_m = 4, totalOwedScoins_m = 2,
             pBase = Some (MemCacheOf 1), pAccess = None \<rparr> \<rparr>"]
  by (simp add: CCdpDBCache_on_base_def CCdpMemCache_on_base_def)

text \<open>
  Claim C10. Neither constructor assigns \<^verbatim>\<open>collateralRatioBase\<close>: the member of the new
  record is whatever the memory held, for every possible content. \<^verbatim>\<open>operator<\<close> reads
  it first: on two new records of one owner and CDP id its answer is the comparison of the
  two uninitialised values. \<^verbatim>\<open>SetEmpty\<close> leaves \<^verbatim>\<open>collateralRatioBase\<close> and
  \<^verbatim>\<open>ownerRegId\<close> as they are.
\<close>

theorem CUserCDP_ratio_uninitialised:
  "collateralRatioBase (CUserCDP_default v regId0) = v
   \<and> collateralRatioBase (CUserCDP_new v regId txid) = v
   \<and> CUserCDP_less (CUserCDP_new v1 regId txid) (CUserCDP_new v2 regId txid) = double_less v1 v2
   \<and> collateralRatioBase (SetEmpty r) = collateralRatioBase r
   \<and> ownerRegId (SetEmpty r) = ownerRegId r"
proof -
  have "double_eq v1 v2 \<Longrightarrow> \<not> double_less v1 v2"
    by (cases v1; cases v2) simp_all
  then show ?thesis
    by (auto simp: CUserCDP_default_def CUserCDP_new_def CUserCDP_less_def SetEmpty_def)
qed

subsection \<open>The map under \<^verbatim>\<open>operator<\<close>\<close>


lemma CUserCDP_less_trans:
  "CUserCDP_less a b \<Longrightarrow> CUserCDP_less b c \<Longrightarrow> CUserCDP_less a c"
  unfolding CUserCDP_less_lex
  by (auto simp: double_eq_iff dest: double_less_trans)





text \<open>\<^verbatim>\<open>cdps[r] = flag\<close> keeps the map ascending.\<close>

lemma keys_cdps_put: "fst ` set (cdps_put r f xs) \<subseteq> insert r (fst ` set xs)"
  by (induction xs) auto

lemma cdps_put_ordered:
  "sorted_wrt CUserCDP_less (map fst xs)
     \<Longrightarrow> sorted_wrt CUserCDP_less (map fst (cdps_put r f xs))"
proof (induction xs)
  case Nil
  then show ?case by simp
next
  case (Cons e xs)
  from Cons.prems have above: "\<forall>k \<in> fst ` set xs. CUserCDP_less (fst e) k"
    and tl: "sorted_wrt CUserCDP_less (map fst xs)"
    by auto
  show ?case
  proof (cases "CUserCDP_less (fst e) r")
    case True
    from above True keys_cdps_put [of r f xs]
    have "\<forall>k \<in> fst ` set (cdps_put r f xs). CUserCDP_less (fst e) k"
      by blast
    with True Cons.IH [OF tl] show ?thesis
      by auto
  next
    case False
    show ?thesis
    proof (cases "CUserCDP_less r (fst e)")
      case True
      with above have "\<forall>k \<in> fst ` set xs. CUserCDP_less r k"
        by (blast intro: CUserCDP_less_trans)
      with True False Cons.prems show ?thesis
        by auto
    next
      case nl: False
      with False Cons.prems show ?thesis
        by auto
    qed
  qed
qed

lemma cdps_ordered_new:
  "cdps_ordered CCdpMemCache_new"
  "cdps_ordered (CCdpMemCache_on_base pBaseIn)"
  "cdps_ordered (CCdpMemCache_on_access pAccessIn)"
  by (simp_all add: cdps_ordered_def CCdpMemCache_new_def CCdpMemCache_on_base_def
      CCdpMemCache_on_access_def)

lemma cdps_ordered_SaveCdp: "cdps_ordered this \<Longrightarrow> cdps_ordered (SaveCdp this r)"
  by (simp add: cdps_ordered_def SaveCdp_def cdps_put_ordered)

lemma cdps_EraseCdp: "cdps (EraseCdp this r) = cdps_put r flag_invalid (cdps this)"
  by (simp add: EraseCdp_def split: option.splits prod.splits)

lemma cdps_ordered_EraseCdp: "cdps_ordered this \<Longrightarrow> cdps_ordered (EraseCdp this r)"
  by (simp add: cdps_ordered_def cdps_EraseCdp cdps_put_ordered)



subsection \<open>The query over a chain of layers\<close>


subsection \<open>The claims settled on the operations modelled from the specification\<close>

text \<open>
  Claim C2. For a record that is not the empty sentinel (an existing CDP): if adding
  \<^verbatim>\<open>bcoinsToStake\<close> to \<^verbatim>\<open>totalStakedBcoins\<close> or \<^verbatim>\<open>mintedScoins\<close> to
  \<^verbatim>\<open>totalOwedScoins\<close> would pass \<open>2^64 - 1\<close>, \<^verbatim>\<open>StakeBcoinsToCdp\<close> returns failure and
  the cache (identity store and index), the record and the undo log are what they were.
\<close>

theorem StakeBcoinsToCdp_overflow_atomic:
  assumes "\<not> IsEmpty cdp"
    and "2 ^ 64 \<le> unat (totalStakedBcoins cdp) + unat bcoinsToStake
         \<or> 2 ^ 64 \<le> unat (totalOwedScoins cdp) + unat mintedScoins"
  shows "StakeBcoinsToCdp rnd this height bcoinsToStake mintedScoins cdp dbOpLogMap =
           (False, this, cdp, dbOpLogMap)"
  using assms by (simp add: StakeBcoinsToCdp_def stake_overflows_def)

theorem StakeBcoinsToCdp_overflow_atomic_witness:
  "(let cdp = \<lparr> collateralRatioBase = Finite 18446744073709551615, ownerRegId = (7::nat),
                 cdpTxId = 1, blockHeight = 0, totalStakedBcoins = 18446744073709551615,
                 totalOwedScoins = 1 \<rparr>;
        this = \<lparr> cdpCache = Map.empty((7, 1) \<mapsto> cdp),
                  cdpMemCache = SaveCdp CCdpMemCache_new cdp \<rparr>
    in \<not> IsEmpty cdp \<and> 2 ^ 64 \<le> unat (totalStakedBcoins cdp) + unat (1::uint64_t)
       \<and> StakeBcoinsToCdp (\<lambda>x. x) this 9 1 0 cdp [] = (False, this, cdp, []))"
proof -
  let ?cdp = "\<lparr> collateralRatioBase = Finite 18446744073709551615, ownerRegId = (7::nat),
                 cdpTxId = 1, blockHeight = 0, totalStakedBcoins = 18446744073709551615,
                 totalOwedScoins = 1 \<rparr>"
  have 1: "\<not> IsEmpty ?cdp"
    by (simp add: IsEmpty_def)
  have 2: "2 ^ 64 \<le> unat (totalStakedBcoins ?cdp) + unat (1::uint64_t)"
    by simp
  from 2 have 3: "2 ^ 64 \<le> unat (totalStakedBcoins ?cdp) + unat (1::uint64_t)
      \<or> 2 ^ 64 \<le> unat (totalOwedScoins ?cdp) + unat (0::uint64_t)"
    by (rule disjI1)
  show ?thesis
    using StakeBcoinsToCdp_overflow_atomic [OF 1 3, of "\<lambda>x. x"] 1 2
    unfolding Let_def by simp
qed




text \<open>
  Claim C5. After a \<^verbatim>\<open>StakeBcoinsToCdp\<close> call that succeeds, starting with an empty undo
  log, the log holds one entry: the key of the record written and what the identity store
  held there before (or nothing). \<^verbatim>\<open>UndoCdp\<close> of that log then gives back the identity
  store as it was before the call: the prior record where there was one, and no entry
  where there was none.
\<close>

theorem UndoCdp_after_StakeBcoinsToCdp:
  assumes "StakeBcoinsToCdp rnd this height bcoinsToStake mintedScoins cdp [] =
             (True, this', cdp', dbOpLogMap)"
  shows "dbOpLogMap = [(identity cdp', cdpCache this (identity cdp'))]
     \<and> cdpCache this' (identity cdp') = Some cdp'
     \<and> fst (UndoCdp this' dbOpLogMap) = True
     \<and> cdpCache (snd (UndoCdp this' dbOpLogMap)) = cdpCache this"
  using assms
  by (auto simp: StakeBcoinsToCdp_def CCdpDBCache_SaveCdp_log_def CCdpDBCache_SaveCdp_def
      UndoCdp_def UndoData_def undo_entry_def Let_def split: if_splits option.splits)

theorem UndoCdp_after_StakeBcoinsToCdp_witness:
  "(let fresh = \<lparr> collateralRatioBase = NaN, ownerRegId = (7::nat), cdpTxId = 0,
                   blockHeight = 0, totalStakedBcoins = 0, totalOwedScoins = 0 \<rparr>;
        empty = \<lparr> cdpCache = Map.empty, cdpMemCache = CCdpMemCache_new \<rparr>;
        old = \<lparr> collateralRatioBase = Finite 2, ownerRegId = (8::nat), cdpTxId = 5,
                 blockHeight = 1, totalStakedBcoins = 4, totalOwedScoins = 2 \<rparr>;
        this = \<lparr> cdpCache = Map.empty((8, 5) \<mapsto> old),
                  cdpMemCache = SaveCdp CCdpMemCache_new old \<rparr>;
        (ok1, this1, cdp1, log1) = StakeBcoinsToCdp (\<lambda>x. x) empty 3 10 5 fresh [];
        (ok2, this2, cdp2, log2) = StakeBcoinsToCdp (\<lambda>x. x) this 3 2 1 old []
    in ok1 \<and> log1 = [((7, 0), None)] \<and> cdpCache this1 (7, 0) = Some cdp1
       \<and> cdpCache (snd (UndoCdp this1 log1)) = Map.empty
       \<and> ok2 \<and> log2 = [((8, 5), Some old)] \<and> cdpCache this2 (8, 5) = Some cdp2
       \<and> cdp2 \<noteq> old
       \<and> cdpCache (snd (UndoCdp this2 log2)) = Map.empty((8, 5) \<mapsto> old))"
proof -
  let ?fresh = "\<lparr> collateralRatioBase = NaN, ownerRegId = (7::nat), cdpTxId = 0,
                   blockHeight = 0, totalStakedBcoins = 0, totalOwedScoins = 0 \<rparr>"
  let ?empty = "\<lparr> cdpCache = Map.empty, cdpMemCache = CCdpMemCache_new \<rparr>
                :: (nat, nat cdp_store) CCdpDBCache"
  let ?old = "\<lparr> collateralRatioBase = Finite 2, ownerRegId = (8::nat), cdpTxId = 5,
                 blockHeight = 1, totalStakedBcoins = 4, totalOwedScoins = 2 \<rparr>"
  let ?db = "\<lparr> cdpCache = Map.empty((8, 5) \<mapsto> ?old),
                  cdpMemCache = SaveCdp CCdpMemCache_new ?old \<rparr>
               :: (nat, nat cdp_store) CCdpDBCache"
  obtain ok1 this1 cdp1 log1
    where s1: "StakeBcoinsToCdp (\<lambda>x. x) ?empty 3 10 5 ?fresh [] = (ok1, this1, cdp1, log1)"
    by (cases "StakeBcoinsToCdp (\<lambda>x. x) ?empty 3 10 5 ?fresh []") auto
  then have ok1: "ok1" and c1: "identity cdp1 = (7, 0)"
    by (auto simp: StakeBcoinsToCdp_def IsEmpty_def CCdpDBCache_SaveCdp_log_def Let_def
        staked_cdp_def identity_def)
  from s1 ok1 have "StakeBcoinsToCdp (\<lambda>x. x) ?empty 3 10 5 ?fresh [] = (True, this1, cdp1, log1)"
    by simp
  from UndoCdp_after_StakeBcoinsToCdp [OF this, unfolded c1, simplified]
  have u1: "log1 = [((7, 0), None)]" "cdpCache this1 (7, 0) = Some cdp1"
    "cdpCache (snd (UndoCdp this1 log1)) = Map.empty"
    by blast+
  obtain ok2 this2 cdp2 log2
    where s2: "StakeBcoinsToCdp (\<lambda>x. x) ?db 3 2 1 ?old [] = (ok2, this2, cdp2, log2)"
    by (cases "StakeBcoinsToCdp (\<lambda>x. x) ?db 3 2 1 ?old []") auto
  then have ok2: "ok2" and c2: "identity cdp2 = (8, 5)" "cdp2 \<noteq> ?old"
    by (auto simp: StakeBcoinsToCdp_def IsEmpty_def CCdpDBCache_SaveCdp_log_def Let_def
        staked_cdp_def identity_def stake_overflows_def)
  from s2 ok2 have "StakeBcoinsToCdp (\<lambda>x. x) ?db 3 2 1 ?old [] = (True, this2, cdp2, log2)"
    by simp
  from UndoCdp_after_StakeBcoinsToCdp [OF this, unfolded c2, simplified]
  have u2: "log2 = [((8, 5), Some ?old)]" "cdpCache this2 (8, 5) = Some cdp2"
    "cdpCache (snd (UndoCdp this2 log2)) = Map.empty((8, 5) \<mapsto> ?old)"
    by blast+
  show ?thesis
    unfolding Let_def s1 s2 prod.case
    by (intro conjI ok1 ok2 u1 u2 c2)
qed

end
